theory Spec2Isabelle
  imports Main "HOL-Library.Multiset"
begin

section \<open>Python values held in card attributes and snapshot dictionaries\<close>

text \<open>
  The attributes of a \<^verbatim>\<open>TarotCard\<close> are not checked by the constructor, and
  \<^verbatim>\<open>from_dict\<close> stores whatever the dictionary holds. Attribute values are therefore
  modelled dynamically, restricted to the scalar values a JSON snapshot can carry:
  \<^verbatim>\<open>None\<close>, booleans, integers and strings.
\<close>

datatype pyval = PNone | PBool bool | PInt int | PStr string

text \<open>Truth value of an object, as tested by \<^verbatim>\<open>if x:\<close> and \<^verbatim>\<open>not x\<close>.\<close>

fun truthy :: "pyval \<Rightarrow> bool" where
  "truthy PNone = False"
| "truthy (PBool b) = b"
| "truthy (PInt i) = (i \<noteq> 0)"
| "truthy (PStr s) = (s \<noteq> [])"

text \<open>Decimal rendering of an integer, as an f-string field \<^verbatim>\<open>{i}\<close> produces it.\<close>

fun str_nat :: "nat \<Rightarrow> string" where
  "str_nat n =
     (if n < 10 then [''0123456789'' ! n]
      else str_nat (n div 10) @ [''0123456789'' ! (n mod 10)])"

declare str_nat.simps [simp del]

definition str_int :: "int \<Rightarrow> string" where
  "str_int i = (if i < 0 then ''-'' @ str_nat (nat (- i)) else str_nat (nat i))"

text \<open>\<^verbatim>\<open>str(x)\<close>, which is what an f-string field applies to a value.\<close>

fun py_str :: "pyval \<Rightarrow> string" where
  "py_str PNone = ''None''"
| "py_str (PBool b) = (if b then ''True'' else ''False'')"
| "py_str (PInt i) = str_int i"
| "py_str (PStr s) = s"

datatype py_error = KeyError string

section \<open>TarotCard\<close>

record TarotCard =
  name :: pyval
  description :: pyval
  image_file :: pyval
  reversed :: pyval

text \<open>
  \<^verbatim>\<open>__init__(self, name, description, image_file=None, reversed=False)\<close>; a caller that
  leaves the last two arguments out passes \<open>PNone\<close> and \<open>PBool False\<close>.
\<close>

definition TarotCard_init :: "pyval \<Rightarrow> pyval \<Rightarrow> pyval \<Rightarrow> pyval \<Rightarrow> TarotCard" where
  "TarotCard_init n d img r =
     \<lparr>name = n, description = d, image_file = img, reversed = r\<rparr>"

definition flip :: "TarotCard \<Rightarrow> TarotCard" where
  "flip c = c\<lparr>reversed := PBool (\<not> truthy (reversed c))\<rparr>"

definition get_meaning :: "TarotCard \<Rightarrow> string" where
  "get_meaning c =
     (if truthy (reversed c)
      then py_str (name c) @ '' (Reversed): '' @ py_str (description c)
           @ '' - Consider the opposite or blocked energy.''
      else py_str (name c) @ '': '' @ py_str (description c))"

type_synonym card_dict = "string \<rightharpoonup> pyval"

definition to_dict :: "TarotCard \<Rightarrow> card_dict" where
  "to_dict c =
     [''name'' \<mapsto> name c,
      ''description'' \<mapsto> description c,
      ''image_file'' \<mapsto> image_file c,
      ''reversed'' \<mapsto> reversed c]"

text \<open>
  \<^verbatim>\<open>data['name']\<close> and \<^verbatim>\<open>data['description']\<close> raise \<^verbatim>\<open>KeyError\<close> on a missing key, in
  this order; \<^verbatim>\<open>data.get\<close> returns its default instead.
\<close>

definition from_dict :: "card_dict \<Rightarrow> py_error + TarotCard" where
  "from_dict data =
     (case data ''name'' of
        None \<Rightarrow> Inl (KeyError ''name'')
      | Some n \<Rightarrow>
          (case data ''description'' of
             None \<Rightarrow> Inl (KeyError ''description'')
           | Some d \<Rightarrow>
               Inr (TarotCard_init n d
                     (case data ''image_file'' of None \<Rightarrow> PNone | Some v \<Rightarrow> v)
                     (case data ''reversed'' of None \<Rightarrow> PBool False | Some v \<Rightarrow> v))))"

section \<open>TarotDeck\<close>

record TarotDeck =
  cards :: "TarotCard list"

definition major_arcana :: "(string \<times> string) list" where
  "major_arcana =
     [(''The Fool'', ''New beginnings, spontaneity, innocence''),
      (''The Magician'', ''Manifestation, resourcefulness, power''),
      (''The High Priestess'', ''Intuition, sacred knowledge, divine feminine''),
      (''The Empress'', ''Femininity, beauty, nature, abundance''),
      (''The Emperor'', ''Authority, structure, control, father-figure''),
      (''The Hierophant'', ''Spiritual wisdom, religious beliefs, conformity''),
      (''The Lovers'', ''Love, harmony, relationships, values alignment''),
      (''The Chariot'', ''Control, willpower, success, determination''),
      (''Strength'', ''Inner strength, bravery, compassion, focus''),
      (''The Hermit'', ''Soul searching, introspection, inner guidance''),
      (''Wheel of Fortune'', ''Good luck, karma, life cycles, destiny''),
      (''Justice'', ''Justice, fairness, truth, cause and effect''),
      (''The Hanged Man'', ''Suspension, restriction, letting go''),
      (''Death'', ''Endings, beginnings, change, transformation''),
      (''Temperance'', ''Balance, moderation, patience, purpose''),
      (''The Devil'', ''Shadow self, attachment, addiction, restriction''),
      (''The Tower'', ''Sudden change, upheaval, chaos, revelation''),
      (''The Star'', ''Hope, faith, purpose, renewal, spirituality''),
      (''The Moon'', ''Illusion, fear, anxiety, subconscious, intuition''),
      (''The Sun'', ''Optimism, fun, warmth, success, vitality''),
      (''Judgement'', ''Reflection, reckoning, awakening''),
      (''The World'', ''Completion, integration, accomplishment, travel'')]"

definition suits :: "string list" where
  "suits = [''Cups'', ''Wands'', ''Swords'', ''Pentacles'']"

definition suit_meanings :: "string \<rightharpoonup> string" where
  "suit_meanings =
     [''Cups'' \<mapsto> ''emotions, intuition, relationships, spirituality'',
      ''Wands'' \<mapsto> ''creativity, action, passion, career'',
      ''Swords'' \<mapsto> ''thoughts, communication, conflict, intellect'',
      ''Pentacles'' \<mapsto> ''material world, resources, money, career'']"

definition court_cards :: "string list" where
  "court_cards = [''Page'', ''Knight'', ''Queen'', ''King'']"

text \<open>The three \<^verbatim>\<open>for\<close> loops of \<^verbatim>\<open>_create_deck\<close>, each appending to \<^verbatim>\<open>self.cards\<close>.\<close>

definition add_major :: "TarotCard list \<Rightarrow> TarotCard list" where
  "add_major cs =
     foldl (\<lambda>acc (n, d). acc @ [TarotCard_init (PStr n) (PStr d) PNone (PBool False)])
       cs major_arcana"

definition add_numbers :: "string \<Rightarrow> string \<Rightarrow> TarotCard list \<Rightarrow> TarotCard list" where
  "add_numbers suit suit_meaning cs =
     foldl (\<lambda>acc i.
              acc @ [TarotCard_init
                       (PStr (if i = 1 then ''Ace of '' @ suit
                              else str_int i @ '' of '' @ suit))
                       (PStr (''Represents '' @ suit_meaning @ '' at level '' @ str_int i))
                       PNone (PBool False)])
       cs [1..10]"

definition add_courts :: "string \<Rightarrow> string \<Rightarrow> TarotCard list \<Rightarrow> TarotCard list" where
  "add_courts suit suit_meaning cs =
     foldl (\<lambda>acc court.
              acc @ [TarotCard_init
                       (PStr (court @ '' of '' @ suit))
                       (PStr (court @ '' energy in the realm of '' @ suit_meaning))
                       PNone (PBool False)])
       cs court_cards"

text \<open>
  \<^verbatim>\<open>_create_deck\<close> appends to the list the deck already holds. The lookup
  \<^verbatim>\<open>suit_meanings[suit]\<close> only meets the four keys of \<open>suits\<close>, all of which are
  present (lemma \<open>suit_meanings_defined\<close>), so it never raises.
\<close>

definition create_deck :: "TarotCard list \<Rightarrow> TarotCard list" where
  "create_deck cs =
     foldl (\<lambda>acc suit.
              let suit_meaning = the (suit_meanings suit)
              in add_courts suit suit_meaning (add_numbers suit suit_meaning acc))
       (add_major cs) suits"

definition TarotDeck_init :: TarotDeck where
  "TarotDeck_init = \<lparr>cards = create_deck []\<rparr>"

definition reset :: "TarotDeck \<Rightarrow> TarotDeck" where
  "reset d = d\<lparr>cards := create_deck []\<rparr>"

definition remaining_cards :: "TarotDeck \<Rightarrow> nat" where
  "remaining_cards d = length (cards d)"

text \<open>\<^verbatim>\<open>self.cards.pop()\<close> removes and returns the last element.\<close>

definition draw_card :: "TarotDeck \<Rightarrow> TarotCard option \<times> TarotDeck" where
  "draw_card d =
     (if cards d \<noteq> [] then (Some (last (cards d)), d\<lparr>cards := butlast (cards d)\<rparr>)
      else (None, d))"

text \<open>
  The body of the loop of \<^verbatim>\<open>draw_cards\<close>, run \<open>k\<close> times; the number of rounds
  \<^verbatim>\<open>min(count, len(self.cards))\<close> is fixed before the first round, and a negative
  bound gives an empty \<^verbatim>\<open>range\<close>. A \<^verbatim>\<open>TarotCard\<close> object is always true, so
  \<^verbatim>\<open>if card:\<close> only rejects \<^verbatim>\<open>None\<close>.
\<close>

fun draw_loop :: "nat \<Rightarrow> TarotDeck \<Rightarrow> TarotCard list \<Rightarrow> TarotCard list \<times> TarotDeck" where
  "draw_loop 0 d drawn_cards = (drawn_cards, d)"
| "draw_loop (Suc k) d drawn_cards =
     (case draw_card d of
        (Some c, d') \<Rightarrow> draw_loop k d' (drawn_cards @ [c])
      | (None, d') \<Rightarrow> draw_loop k d' drawn_cards)"

definition draw_cards :: "int \<Rightarrow> TarotDeck \<Rightarrow> TarotCard list \<times> TarotDeck" where
  "draw_cards cnt d = draw_loop (nat (min cnt (int (length (cards d))))) d []"

section \<open>The random source\<close>

text \<open>
  The module-level generator of \<^verbatim>\<open>random\<close> is state outside the session. It is
  modelled by the infinite sequence of its future raw outputs, so that a statement about
  every \<open>rng\<close> is a statement about every outcome of the random choices.
  \<^verbatim>\<open>randbelow(n)\<close> consumes one output and reduces it into \<open>{0..<n}\<close>.
\<close>

type_synonym rng = "nat \<Rightarrow> nat"

definition randbelow :: "nat \<Rightarrow> rng \<Rightarrow> nat \<times> rng" where
  "randbelow n g = (g 0 mod n, \<lambda>k. g (Suc k))"

text \<open>
  \<^verbatim>\<open>random.shuffle(x)\<close> is the library's exchange loop
  \<^verbatim>\<open>for i in reversed(range(1, len(x))): j = randbelow(i + 1); x[i], x[j] = x[j], x[i]\<close>.
\<close>

fun shuffle_loop :: "nat \<Rightarrow> 'a list \<Rightarrow> rng \<Rightarrow> 'a list \<times> rng" where
  "shuffle_loop 0 x g = (x, g)"
| "shuffle_loop (Suc i) x g =
     (case randbelow (Suc i + 1) g of
        (j, g') \<Rightarrow> shuffle_loop i (x[Suc i := x ! j, j := x ! Suc i]) g')"

definition random_shuffle :: "'a list \<Rightarrow> rng \<Rightarrow> 'a list \<times> rng" where
  "random_shuffle x g = shuffle_loop (length x - 1) x g"

text \<open>
  \<^verbatim>\<open>random.choice(seq)\<close> is \<^verbatim>\<open>seq[randbelow(len(seq))]\<close>; its only caller passes the
  two-element list \<^verbatim>\<open>[True, False]\<close>, for which the index is in range.
\<close>

definition choice :: "'a list \<Rightarrow> rng \<Rightarrow> 'a \<times> rng" where
  "choice seq g = (case randbelow (length seq) g of (i, g') \<Rightarrow> (seq ! i, g'))"

text \<open>The second loop of \<^verbatim>\<open>shuffle\<close>: one coin per card, in list order.\<close>

fun flip_loop :: "TarotCard list \<Rightarrow> rng \<Rightarrow> TarotCard list \<times> rng" where
  "flip_loop [] g = ([], g)"
| "flip_loop (c # cs) g =
     (case choice [True, False] g of
        (b, g') \<Rightarrow>
          (case flip_loop cs g' of
             (cs', g'') \<Rightarrow> ((if b then flip c else c) # cs', g'')))"

definition shuffle :: "TarotDeck \<Rightarrow> rng \<Rightarrow> TarotDeck \<times> rng" where
  "shuffle d g =
     (case random_shuffle (cards d) g of
        (x, g1) \<Rightarrow>
          (case flip_loop x g1 of
             (y, g2) \<Rightarrow> (d\<lparr>cards := y\<rparr>, g2)))"

section \<open>TarotReading\<close>

text \<open>
  The dictionary a reading operation returns has either the single key \<^verbatim>\<open>error\<close> or
  the three keys \<^verbatim>\<open>type\<close>, \<^verbatim>\<open>cards\<close> and \<^verbatim>\<open>interpretation\<close>.
\<close>

datatype reading =
    Error_dict string
  | Reading_dict string "card_dict list" string

fun is_error :: "reading \<Rightarrow> bool" where
  "is_error (Error_dict m) = True"
| "is_error (Reading_dict t cs i) = False"

record TarotReading =
  deck :: TarotDeck
  readings_history :: "reading list"

definition TarotReading_init :: TarotReading where
  "TarotReading_init = \<lparr>deck = TarotDeck_init, readings_history = []\<rparr>"

text \<open>\<^verbatim>\<open>sep.join(lines)\<close>.\<close>

fun join :: "string \<Rightarrow> string list \<Rightarrow> string" where
  "join sep [] = []"
| "join sep [l] = l"
| "join sep (l # ls) = l @ sep @ join sep ls"

text \<open>
  The \<^verbatim>\<open>enumerate\<close> loop that builds the interpretation lines. It runs only when
  \<^verbatim>\<open>draw_cards\<close> returned exactly as many cards as there are positions, so
  \<^verbatim>\<open>positions[i]\<close> is in range (lemma \<open>draw_cards_length\<close>).
\<close>

definition position_lines :: "string list \<Rightarrow> TarotCard list \<Rightarrow> string list" where
  "position_lines positions cs =
     map (\<lambda>(i, c). positions ! i @ '': '' @ get_meaning c) (enumerate 0 cs)"

text \<open>
  Each operation takes the session and the random source and returns the dictionary, the
  session and the random source after the call.
\<close>

definition single_card_reading :: "TarotReading \<Rightarrow> rng \<Rightarrow> reading \<times> TarotReading \<times> rng" where
  "single_card_reading s g =
     (case shuffle (deck s) g of
        (d1, g1) \<Rightarrow>
          (case draw_card d1 of
             (None, d2) \<Rightarrow> (Error_dict ''No cards available'', s\<lparr>deck := d2\<rparr>, g1)
           | (Some c, d2) \<Rightarrow>
               (let r = Reading_dict ''Single Card'' [to_dict c]
                          (''Today's guidance: '' @ get_meaning c)
                in (r, s\<lparr>deck := d2, readings_history := readings_history s @ [r]\<rparr>, g1))))"

definition three_card_reading :: "TarotReading \<Rightarrow> rng \<Rightarrow> reading \<times> TarotReading \<times> rng" where
  "three_card_reading s g =
     (case shuffle (deck s) g of
        (d1, g1) \<Rightarrow>
          (case draw_cards 3 d1 of
             (cs, d2) \<Rightarrow>
               if length cs < 3
               then (Error_dict ''Not enough cards available'', s\<lparr>deck := d2\<rparr>, g1)
               else
                 (let positions = [''Past'', ''Present'', ''Future''];
                      interpretation = position_lines positions cs;
                      r = Reading_dict ''Three Card (Past, Present, Future)''
                            (map to_dict cs) (join [CHR 0x0A] interpretation)
                  in (r, s\<lparr>deck := d2, readings_history := readings_history s @ [r]\<rparr>, g1))))"

definition celtic_positions :: "string list" where
  "celtic_positions =
     [''Present Situation'',
      ''Challenge/Cross'',
      ''Distant Past/Foundation'',
      ''Recent Past'',
      ''Possible Outcome'',
      ''Near Future'',
      ''Your Approach'',
      ''External Influences'',
      ''Hopes and Fears'',
      ''Final Outcome'']"

definition celtic_cross_reading :: "TarotReading \<Rightarrow> rng \<Rightarrow> reading \<times> TarotReading \<times> rng" where
  "celtic_cross_reading s g =
     (case shuffle (deck s) g of
        (d1, g1) \<Rightarrow>
          (case draw_cards 10 d1 of
             (cs, d2) \<Rightarrow>
               if length cs < 10
               then (Error_dict ''Not enough cards for Celtic Cross reading'',
                     s\<lparr>deck := d2\<rparr>, g1)
               else
                 (let interpretation = position_lines celtic_positions cs;
                      r = Reading_dict ''Celtic Cross''
                            (map to_dict cs) (join [CHR 0x0A] interpretation)
                  in (r, s\<lparr>deck := d2, readings_history := readings_history s @ [r]\<rparr>, g1))))"

section \<open>The canonical table of the specification\<close>

text \<open>
  The canonical table in the words of the specification: the 22 major entries, then for
  each suit in the order Cups, Wands, Swords, Pentacles ten numbered entries (label Ace
  for 1) followed by the court entries Page, Knight, Queen, King.
\<close>

definition spec_suit_themes :: "(string \<times> string) list" where
  "spec_suit_themes =
     [(''Cups'', ''emotions, intuition, relationships, spirituality''),
      (''Wands'', ''creativity, action, passion, career''),
      (''Swords'', ''thoughts, communication, conflict, intellect''),
      (''Pentacles'', ''material world, resources, money, career'')]"

definition spec_numbered :: "(string \<times> string) list" where
  "spec_numbered =
     [(''Ace'', ''1''), (''2'', ''2''), (''3'', ''3''), (''4'', ''4''), (''5'', ''5''),
      (''6'', ''6''), (''7'', ''7''), (''8'', ''8''), (''9'', ''9''), (''10'', ''10'')]"

definition spec_suit_entries :: "string \<times> string \<Rightarrow> (string \<times> string) list" where
  "spec_suit_entries st =
     map (\<lambda>(label, n). (label @ '' of '' @ fst st,
                         ''Represents '' @ snd st @ '' at level '' @ n)) spec_numbered
     @ map (\<lambda>court. (court @ '' of '' @ fst st,
                      court @ '' energy in the realm of '' @ snd st))
         [''Page'', ''Knight'', ''Queen'', ''King'']"

definition canonical_table :: "(string \<times> string) list" where
  "canonical_table = major_arcana @ concat (map spec_suit_entries spec_suit_themes)"

definition canonical_deck :: "TarotCard list" where
  "canonical_deck =
     map (\<lambda>(n, d). \<lparr>name = PStr n, description = PStr d,
                     image_file = PNone, reversed = PBool False\<rparr>) canonical_table"

section \<open>Concrete states for instances\<close>

definition demo_card :: "string \<Rightarrow> TarotCard" where
  "demo_card n = TarotCard_init (PStr n) (PStr ''d'') PNone (PBool False)"

definition demo_deck :: TarotDeck where
  "demo_deck = \<lparr>cards = [demo_card ''A'', demo_card ''B'', demo_card ''C'']\<rparr>"

text \<open>One possible random source: the raw outputs 0, 1, 2, ...\<close>

definition demo_rng :: rng where
  "demo_rng = (\<lambda>k. k)"

text \<open>
  The session a test reaches by \<^verbatim>\<open>reading = TarotReading()\<close> followed by
  \<^verbatim>\<open>reading.deck.draw_cards(n)\<close>.
\<close>

definition session_after_drawing :: "int \<Rightarrow> TarotReading" where
  "session_after_drawing n =
     TarotReading_init\<lparr>deck := snd (draw_cards n (deck TarotReading_init))\<rparr>"

definition demo_session :: TarotReading where
  "demo_session = \<lparr>deck = demo_deck, readings_history = []\<rparr>"

text \<open>A snapshot that holds only the two required keys.\<close>

definition demo_snapshot :: card_dict where
  "demo_snapshot =
     [''name'' \<mapsto> PStr ''The Star'', ''description'' \<mapsto> PStr ''Hope and guidance'']"

section \<open>The deck after construction and reset\<close>

lemma suit_meanings_defined:
  "map (\<lambda>s. suit_meanings s \<noteq> None) suits = [True, True, True, True]"
  by (simp add: suits_def suit_meanings_def)

lemma create_deck_canonical: "create_deck [] = canonical_deck"
  by code_simp

lemma canonical_length: "length canonical_table = 78"
  by code_simp

lemma canonical_distinct: "distinct (map fst canonical_table)"
  by code_simp

text \<open>
  Claim C2. A freshly constructed deck holds 78 cards with pairwise distinct names; names
  and descriptions are those of the canonical table, in its order; no card has an image
  and every card is upright. \<open>reset\<close>, applied to any deck whatever, gives exactly the
  freshly constructed deck.
\<close>

theorem deck_after_construct_and_reset:
  "remaining_cards TarotDeck_init = 78 \<and>
   distinct (map name (cards TarotDeck_init)) \<and>
   map (\<lambda>c. (name c, description c)) (cards TarotDeck_init)
     = map (\<lambda>(n, d). (PStr n, PStr d)) canonical_table \<and>
   map image_file (cards TarotDeck_init) = replicate 78 PNone \<and>
   map reversed (cards TarotDeck_init) = replicate 78 (PBool False) \<and>
   remaining_cards (reset d) = 78 \<and>
   reset d = TarotDeck_init"
proof -
  have c: "cards TarotDeck_init = canonical_deck"
    by (simp add: TarotDeck_init_def create_deck_canonical)
  have n: "map name canonical_deck = map (PStr \<circ> fst) canonical_table"
    by (simp add: canonical_deck_def case_prod_beta comp_def)
  have "distinct (map PStr (map fst canonical_table))"
    using canonical_distinct by (simp add: distinct_map inj_on_def del: map_map)
  then have d: "distinct (map name canonical_deck)" by (simp add: n)
  have nd: "map (\<lambda>c. (name c, description c)) canonical_deck
     = map (\<lambda>(n, d). (PStr n, PStr d)) canonical_table"
    by (simp add: canonical_deck_def case_prod_beta)
  have "map image_file canonical_deck = replicate (length canonical_table) PNone"
    by (simp add: canonical_deck_def comp_def case_prod_beta map_replicate_const)
  then have i: "map image_file canonical_deck = replicate 78 PNone"
    by (simp only: canonical_length)
  have "map reversed canonical_deck = replicate (length canonical_table) (PBool False)"
    by (simp add: canonical_deck_def comp_def case_prod_beta map_replicate_const)
  then have r: "map reversed canonical_deck = replicate 78 (PBool False)"
    by (simp only: canonical_length)
  have l: "length canonical_deck = 78"
    using canonical_length by (simp add: canonical_deck_def)
  have rs: "reset d = TarotDeck_init"
    by (simp add: reset_def TarotDeck_init_def)
  show ?thesis
    using d nd i r l by (simp add: rs remaining_cards_def c)
qed

section \<open>Drawing\<close>

lemma draw_loop_eq:
  "k \<le> length (cards d) \<Longrightarrow>
   draw_loop k d acc =
     (acc @ take k (rev (cards d)), d\<lparr>cards := take (length (cards d) - k) (cards d)\<rparr>)"
proof (induction k arbitrary: d acc)
  case 0
  then show ?case by simp
next
  case (Suc k)
  then have ne: "cards d \<noteq> []" by auto
  obtain xs x where xs: "cards d = xs @ [x]"
    using ne by (metis rev_exhaust)
  have k: "k \<le> length xs" using Suc.prems xs by simp
  have "draw_loop (Suc k) d acc = draw_loop k (d\<lparr>cards := xs\<rparr>) (acc @ [x])"
    by (simp add: draw_card_def xs)
  also have "\<dots> = ((acc @ [x]) @ take k (rev xs), d\<lparr>cards := take (length xs - k) xs\<rparr>)"
    using Suc.IH [of "d\<lparr>cards := xs\<rparr>" "acc @ [x]"] k by simp
  finally show ?case by (simp add: xs)
qed

lemma draw_cards_eq:
  "draw_cards n d =
     (take (nat n) (rev (cards d)), d\<lparr>cards := take (length (cards d) - nat n) (cards d)\<rparr>)"
proof -
  let ?k = "nat (min n (int (length (cards d))))"
  have k: "?k \<le> length (cards d)" by simp
  have kk: "?k = min (nat n) (length (cards d))" by simp
  show ?thesis
    unfolding draw_cards_def draw_loop_eq [OF k]
    by (auto simp: kk min_def)
qed

lemma draw_cards_length:
  "length (fst (draw_cards n d)) = min (nat n) (length (cards d))"
  by (simp add: draw_cards_eq)

text \<open>
  Claim C3. For a non-negative \<open>n\<close>: when the deck holds at least \<open>n\<close> cards, exactly \<open>n\<close>
  are returned and the deck shrinks by \<open>n\<close>; otherwise all remaining cards are returned
  and the deck is left empty. In both cases the result lists the cards from the end of
  the deck backwards (position 0 is the card that was last), and the deck keeps its
  front. \<open>draw_cards\<close> is a total function with no error value: it cannot raise.
\<close>

theorem draw_cards_counts_and_order:
  "0 \<le> n \<Longrightarrow>
   (if n \<le> int (remaining_cards d)
    then int (length (fst (draw_cards n d))) = n \<and>
         int (remaining_cards (snd (draw_cards n d))) = int (remaining_cards d) - n
    else length (fst (draw_cards n d)) = remaining_cards d \<and>
         remaining_cards (snd (draw_cards n d)) = 0) \<and>
   fst (draw_cards n d) = take (nat n) (rev (cards d)) \<and>
   cards (snd (draw_cards n d)) = take (remaining_cards d - nat n) (cards d)"
  by (auto simp: draw_cards_eq remaining_cards_def min_def)

theorem draw_cards_counts_and_order_witness:
  "(0::int) \<le> 2 \<and> 2 \<le> int (remaining_cards demo_deck) \<and>
   fst (draw_cards 2 demo_deck) = [demo_card ''C'', demo_card ''B''] \<and>
   cards (snd (draw_cards 2 demo_deck)) = [demo_card ''A''] \<and>
   (0::int) \<le> 5 \<and> \<not> 5 \<le> int (remaining_cards demo_deck) \<and>
   fst (draw_cards 5 demo_deck) = [demo_card ''C'', demo_card ''B'', demo_card ''A''] \<and>
   remaining_cards (snd (draw_cards 5 demo_deck)) = 0"
  using draw_cards_counts_and_order [of 2 demo_deck]
        draw_cards_counts_and_order [of 5 demo_deck]
  by (simp add: demo_deck_def remaining_cards_def)

text \<open>
  Claim C10. For \<open>n \<le> 0\<close> the loop of \<open>draw_cards\<close> runs zero times: nothing is returned
  and the deck is the one passed in.
\<close>

theorem draw_cards_nonpositive:
  "n \<le> 0 \<Longrightarrow> draw_cards n d = ([], d)"
  by (simp add: draw_cards_eq)

theorem draw_cards_nonpositive_witness:
  "(-2::int) \<le> 0 \<and> draw_cards (-2) demo_deck = ([], demo_deck) \<and>
   (0::int) \<le> 0 \<and> draw_cards 0 demo_deck = ([], demo_deck)"
  using draw_cards_nonpositive [of "-2" demo_deck] draw_cards_nonpositive [of 0 demo_deck]
  by simp

section \<open>Shuffling\<close>

lemma randbelow_less: "0 < n \<Longrightarrow> fst (randbelow n g) < n"
  by (simp add: randbelow_def)

lemma shuffle_loop_mset:
  "i < length x \<Longrightarrow> mset (fst (shuffle_loop i x g)) = mset x"
proof (induction i arbitrary: x g)
  case 0
  then show ?case by simp
next
  case (Suc i)
  obtain j g' where r: "randbelow (Suc i + 1) g = (j, g')"
    by (cases "randbelow (Suc i + 1) g")
  have "j < Suc i + 1" using randbelow_less [of "Suc i + 1" g] r by simp
  then have j: "j < length x" using Suc.prems by simp
  let ?y = "x[Suc i := x ! j, j := x ! Suc i]"
  have sw: "mset ?y = mset x"
    using mset_swap [OF j Suc.prems] .
  have "i < length ?y" using Suc.prems by simp
  then have "mset (fst (shuffle_loop i ?y g')) = mset ?y"
    by (rule Suc.IH)
  then show ?case using r sw by simp
qed

lemma random_shuffle_mset: "mset (fst (random_shuffle x g)) = mset x"
proof (cases x)
  case Nil
  then show ?thesis by (simp add: random_shuffle_def)
next
  case (Cons a as)
  then have "length x - 1 < length x" by simp
  then show ?thesis unfolding random_shuffle_def by (rule shuffle_loop_mset)
qed

lemma flip_loop_Cons_fst:
  "fst (flip_loop (c # cs) g) =
     (if fst (choice [True, False] g) then flip c else c)
     # fst (flip_loop cs (snd (choice [True, False] g)))"
  by (simp split: prod.splits)

lemma flip_loop_map:
  "(\<And>c. f (flip c) = f c) \<Longrightarrow> map f (fst (flip_loop cs g)) = map f cs"
proof (induction cs arbitrary: g)
  case Nil
  show ?case by simp
next
  case (Cons c cs)
  show ?case
    unfolding flip_loop_Cons_fst using Cons.prems Cons.IH [OF Cons.prems] by simp
qed

lemma shuffle_cards:
  "cards (fst (shuffle d g)) =
     fst (flip_loop (fst (random_shuffle (cards d) g)) (snd (random_shuffle (cards d) g)))"
  by (simp add: shuffle_def split: prod.splits)

lemma shuffle_mset_map:
  assumes "\<And>c. f (flip c) = f c"
  shows "mset (map f (cards (fst (shuffle d g)))) = mset (map f (cards d))"
proof -
  have "mset (map f (cards (fst (shuffle d g))))
      = mset (map f (fst (random_shuffle (cards d) g)))"
    unfolding shuffle_cards using flip_loop_map [of f, OF assms] by simp
  also have "\<dots> = image_mset f (mset (fst (random_shuffle (cards d) g)))"
    by simp
  also have "\<dots> = image_mset f (mset (cards d))"
    by (simp only: random_shuffle_mset)
  finally show ?thesis by simp
qed

lemma shuffle_length [simp]:
  "length (cards (fst (shuffle d g))) = length (cards d)"
proof -
  have "mset (map name (cards (fst (shuffle d g)))) = mset (map name (cards d))"
    by (rule shuffle_mset_map) (simp add: flip_def)
  then have "size (mset (map name (cards (fst (shuffle d g))))) = size (mset (map name (cards d)))"
    by simp
  then show ?thesis by simp
qed

text \<open>
  Claim C5. Whatever the random source yields, the deck after \<open>shuffle\<close> holds the same
  multiset of cards as before, where a card is identified by name and description (and
  also when the image is taken into account), and the number of cards is unchanged.
  Only the order and the \<open>reversed\<close> attributes can differ.
\<close>

theorem shuffle_permutes:
  "mset (map (\<lambda>c. (name c, description c)) (cards (fst (shuffle d g))))
     = mset (map (\<lambda>c. (name c, description c)) (cards d)) \<and>
   mset (map (\<lambda>c. (name c, description c, image_file c)) (cards (fst (shuffle d g))))
     = mset (map (\<lambda>c. (name c, description c, image_file c)) (cards d)) \<and>
   remaining_cards (fst (shuffle d g)) = remaining_cards d"
proof -
  have a: "mset (map (\<lambda>c. (name c, description c)) (cards (fst (shuffle d g))))
     = mset (map (\<lambda>c. (name c, description c)) (cards d))"
    by (rule shuffle_mset_map) (simp add: flip_def)
  have b: "mset (map (\<lambda>c. (name c, description c, image_file c)) (cards (fst (shuffle d g))))
     = mset (map (\<lambda>c. (name c, description c, image_file c)) (cards d))"
    by (rule shuffle_mset_map) (simp add: flip_def)
  show ?thesis using a b by (simp add: remaining_cards_def)
qed

section \<open>Reading operations\<close>

lemma shuffle_Nil_iff [simp]: "cards (fst (shuffle d g)) = [] \<longleftrightarrow> cards d = []"
  using shuffle_length [of d g] by (metis length_0_conv)

lemma single_card_reading_error:
  "cards (deck s) = [] \<Longrightarrow>
   single_card_reading s g =
     (Error_dict ''No cards available'',
      s\<lparr>deck := fst (shuffle (deck s) g)\<rparr>, snd (shuffle (deck s) g))"
proof -
  assume e: "cards (deck s) = []"
  obtain d1 g1 where sh: "shuffle (deck s) g = (d1, g1)"
    by (cases "shuffle (deck s) g")
  have "cards d1 = []" using shuffle_Nil_iff [of "deck s" g] e sh by simp
  then show ?thesis
    by (simp add: single_card_reading_def sh draw_card_def)
qed

lemma single_card_reading_ok:
  "cards (deck s) \<noteq> [] \<Longrightarrow>
   single_card_reading s g =
     (let d1 = fst (shuffle (deck s) g);
          c = last (cards d1);
          r = Reading_dict ''Single Card'' [to_dict c] (''Today's guidance: '' @ get_meaning c)
      in (r, s\<lparr>deck := d1\<lparr>cards := butlast (cards d1)\<rparr>,
                readings_history := readings_history s @ [r]\<rparr>,
          snd (shuffle (deck s) g)))"
proof -
  assume e: "cards (deck s) \<noteq> []"
  obtain d1 g1 where sh: "shuffle (deck s) g = (d1, g1)"
    by (cases "shuffle (deck s) g")
  have "cards d1 \<noteq> []" using shuffle_Nil_iff [of "deck s" g] e sh by simp
  then show ?thesis
    by (simp add: single_card_reading_def sh draw_card_def Let_def)
qed

lemma three_card_reading_error:
  "length (cards (deck s)) < 3 \<Longrightarrow>
   three_card_reading s g =
     (Error_dict ''Not enough cards available'',
      s\<lparr>deck := (fst (shuffle (deck s) g))\<lparr>cards := []\<rparr>\<rparr>, snd (shuffle (deck s) g))"
proof -
  assume e: "length (cards (deck s)) < 3"
  obtain d1 g1 where sh: "shuffle (deck s) g = (d1, g1)"
    by (cases "shuffle (deck s) g")
  have "length (cards d1) < 3" using shuffle_length [of "deck s" g] e sh by simp
  then show ?thesis
    by (simp add: three_card_reading_def sh draw_cards_eq)
qed

lemma three_card_reading_ok:
  "3 \<le> length (cards (deck s)) \<Longrightarrow>
   three_card_reading s g =
     (let d1 = fst (shuffle (deck s) g);
          cs = take 3 (rev (cards d1));
          r = Reading_dict ''Three Card (Past, Present, Future)'' (map to_dict cs)
                (join [CHR 0x0A] (position_lines [''Past'', ''Present'', ''Future''] cs))
      in (r, s\<lparr>deck := d1\<lparr>cards := take (length (cards d1) - 3) (cards d1)\<rparr>,
                readings_history := readings_history s @ [r]\<rparr>,
          snd (shuffle (deck s) g)))"
proof -
  assume e: "3 \<le> length (cards (deck s))"
  obtain d1 g1 where sh: "shuffle (deck s) g = (d1, g1)"
    by (cases "shuffle (deck s) g")
  have "3 \<le> length (cards d1)" using shuffle_length [of "deck s" g] e sh by simp
  then show ?thesis
    by (simp add: three_card_reading_def sh draw_cards_eq Let_def)
qed

lemma celtic_cross_reading_error:
  "length (cards (deck s)) < 10 \<Longrightarrow>
   celtic_cross_reading s g =
     (Error_dict ''Not enough cards for Celtic Cross reading'',
      s\<lparr>deck := (fst (shuffle (deck s) g))\<lparr>cards := []\<rparr>\<rparr>, snd (shuffle (deck s) g))"
proof -
  assume e: "length (cards (deck s)) < 10"
  obtain d1 g1 where sh: "shuffle (deck s) g = (d1, g1)"
    by (cases "shuffle (deck s) g")
  have "length (cards d1) < 10" using shuffle_length [of "deck s" g] e sh by simp
  then show ?thesis
    by (simp add: celtic_cross_reading_def sh draw_cards_eq)
qed

lemma celtic_cross_reading_ok:
  "10 \<le> length (cards (deck s)) \<Longrightarrow>
   celtic_cross_reading s g =
     (let d1 = fst (shuffle (deck s) g);
          cs = take 10 (rev (cards d1));
          r = Reading_dict ''Celtic Cross'' (map to_dict cs)
                (join [CHR 0x0A] (position_lines celtic_positions cs))
      in (r, s\<lparr>deck := d1\<lparr>cards := take (length (cards d1) - 10) (cards d1)\<rparr>,
                readings_history := readings_history s @ [r]\<rparr>,
          snd (shuffle (deck s) g)))"
proof -
  assume e: "10 \<le> length (cards (deck s))"
  obtain d1 g1 where sh: "shuffle (deck s) g = (d1, g1)"
    by (cases "shuffle (deck s) g")
  have "10 \<le> length (cards d1)" using shuffle_length [of "deck s" g] e sh by simp
  then show ?thesis
    by (simp add: celtic_cross_reading_def sh draw_cards_eq Let_def)
qed

lemma init_length: "length (cards TarotDeck_init) = 78"
  using canonical_length
  by (simp add: TarotDeck_init_def create_deck_canonical canonical_deck_def)

lemma session_after_drawing_remaining:
  "0 \<le> n \<Longrightarrow> remaining_cards (deck (session_after_drawing n)) = 78 - nat n"
  by (simp add: session_after_drawing_def TarotReading_init_def draw_cards_eq
      remaining_cards_def init_length)

lemma session_after_drawing_history [simp]:
  "readings_history (session_after_drawing n) = []"
  by (simp add: session_after_drawing_def TarotReading_init_def)

text \<open>
  Claim C1, as stated, at a drained deck: \<open>single_card_reading\<close> does return an error
  dictionary, but its message is \<^verbatim>\<open>No cards available\<close>, not
  \<^verbatim>\<open>Not enough cards available\<close>.
\<close>

theorem single_card_error_message_counterexample:
  "remaining_cards (deck (session_after_drawing 78)) < 1 \<and>
   fst (single_card_reading (session_after_drawing 78) demo_rng)
     = Error_dict ''No cards available'' \<and>
   fst (single_card_reading (session_after_drawing 78) demo_rng)
     \<noteq> Error_dict ''Not enough cards available''"
proof -
  have r: "remaining_cards (deck (session_after_drawing 78)) = 0"
    by (simp add: session_after_drawing_remaining)
  then have "cards (deck (session_after_drawing 78)) = []"
    by (simp add: remaining_cards_def)
  then have "fst (single_card_reading (session_after_drawing 78) demo_rng)
     = Error_dict ''No cards available''"
    by (simp add: single_card_reading_error)
  then show ?thesis using r by simp
qed

text \<open>
  Claim C1, amended. Whenever the deck holds fewer cards than the operation draws, the
  operation returns an error dictionary (a value, not an exception); the message is
  \<^verbatim>\<open>No cards available\<close> for the single-card reading,
  \<^verbatim>\<open>Not enough cards available\<close> for the three-card reading and
  \<^verbatim>\<open>Not enough cards for Celtic Cross reading\<close> for the Celtic Cross.
\<close>

theorem insufficient_cards_error:
  "(remaining_cards (deck s) < 1 \<longrightarrow>
      fst (single_card_reading s g) = Error_dict ''No cards available'') \<and>
   (remaining_cards (deck s) < 3 \<longrightarrow>
      fst (three_card_reading s g) = Error_dict ''Not enough cards available'') \<and>
   (remaining_cards (deck s) < 10 \<longrightarrow>
      fst (celtic_cross_reading s g) = Error_dict ''Not enough cards for Celtic Cross reading'')"
  by (simp add: remaining_cards_def single_card_reading_error three_card_reading_error
      celtic_cross_reading_error)

theorem insufficient_cards_error_witness:
  "remaining_cards (deck (session_after_drawing 78)) < 1 \<and>
   fst (single_card_reading (session_after_drawing 78) demo_rng)
     = Error_dict ''No cards available'' \<and>
   remaining_cards (deck (session_after_drawing 76)) < 3 \<and>
   fst (three_card_reading (session_after_drawing 76) demo_rng)
     = Error_dict ''Not enough cards available'' \<and>
   remaining_cards (deck (session_after_drawing 73)) < 10 \<and>
   fst (celtic_cross_reading (session_after_drawing 73) demo_rng)
     = Error_dict ''Not enough cards for Celtic Cross reading''"
  using insufficient_cards_error [of "session_after_drawing 78" demo_rng]
        insufficient_cards_error [of "session_after_drawing 76" demo_rng]
        insufficient_cards_error [of "session_after_drawing 73" demo_rng]
  by (simp add: session_after_drawing_remaining)

lemma single_card_reading_history:
  "readings_history (fst (snd (single_card_reading s g))) =
     (if is_error (fst (single_card_reading s g)) then readings_history s
      else readings_history s @ [fst (single_card_reading s g)])"
  by (cases "cards (deck s) = []")
     (simp_all add: single_card_reading_error single_card_reading_ok Let_def)

lemma three_card_reading_history:
  "readings_history (fst (snd (three_card_reading s g))) =
     (if is_error (fst (three_card_reading s g)) then readings_history s
      else readings_history s @ [fst (three_card_reading s g)])"
  by (cases "length (cards (deck s)) < 3")
     (simp_all add: three_card_reading_error three_card_reading_ok Let_def not_less)

lemma celtic_cross_reading_history:
  "readings_history (fst (snd (celtic_cross_reading s g))) =
     (if is_error (fst (celtic_cross_reading s g)) then readings_history s
      else readings_history s @ [fst (celtic_cross_reading s g)])"
  by (cases "length (cards (deck s)) < 10")
     (simp_all add: celtic_cross_reading_error celtic_cross_reading_ok Let_def not_less)

text \<open>
  Claim C4. Each reading operation leaves the history as it was when it returns an error
  dictionary, and appends exactly the returned dictionary, as one new last element, when
  it returns a reading. In particular a Celtic Cross reading on a deck of 5 cards
  returns the error dictionary and does not touch the history.
\<close>

theorem history_appended_only_on_success:
  "readings_history (fst (snd (single_card_reading s g))) =
     (if is_error (fst (single_card_reading s g)) then readings_history s
      else readings_history s @ [fst (single_card_reading s g)]) \<and>
   readings_history (fst (snd (three_card_reading s g))) =
     (if is_error (fst (three_card_reading s g)) then readings_history s
      else readings_history s @ [fst (three_card_reading s g)]) \<and>
   readings_history (fst (snd (celtic_cross_reading s g))) =
     (if is_error (fst (celtic_cross_reading s g)) then readings_history s
      else readings_history s @ [fst (celtic_cross_reading s g)]) \<and>
   (remaining_cards (deck s) = 5 \<longrightarrow>
      fst (celtic_cross_reading s g) = Error_dict ''Not enough cards for Celtic Cross reading'' \<and>
      readings_history (fst (snd (celtic_cross_reading s g))) = readings_history s)"
  using single_card_reading_history [of s g] three_card_reading_history [of s g]
        celtic_cross_reading_history [of s g]
  by (simp add: remaining_cards_def celtic_cross_reading_error)

theorem history_appended_only_on_success_witness:
  "remaining_cards (deck (session_after_drawing 73)) = 5 \<and>
   fst (celtic_cross_reading (session_after_drawing 73) demo_rng)
     = Error_dict ''Not enough cards for Celtic Cross reading'' \<and>
   length (readings_history (fst (snd (celtic_cross_reading (session_after_drawing 73) demo_rng))))
     = length (readings_history (session_after_drawing 73)) \<and>
   \<not> is_error (fst (three_card_reading TarotReading_init demo_rng)) \<and>
   length (readings_history (fst (snd (three_card_reading TarotReading_init demo_rng)))) = 1"
proof -
  have ok: "\<not> is_error (fst (three_card_reading TarotReading_init demo_rng))"
    by (simp add: three_card_reading_ok TarotReading_init_def init_length Let_def)
  show ?thesis
    using history_appended_only_on_success [of "session_after_drawing 73" demo_rng]
          history_appended_only_on_success [of TarotReading_init demo_rng] ok
    by (simp add: session_after_drawing_remaining TarotReading_init_def)
qed

text \<open>
  Claim C9. When the deck holds at least one card but fewer than the reading draws, the
  three-card and the Celtic Cross reading return their error dictionary and still change
  the deck: it has been shuffled and every remaining card has been drawn and dropped, so
  no card remains and the deck differs from the one before the call.
\<close>

theorem failed_reading_empties_deck:
  "(1 \<le> remaining_cards (deck s) \<and> remaining_cards (deck s) < 3 \<longrightarrow>
      fst (three_card_reading s g) = Error_dict ''Not enough cards available'' \<and>
      remaining_cards (deck (fst (snd (three_card_reading s g)))) = 0 \<and>
      deck (fst (snd (three_card_reading s g))) \<noteq> deck s \<and>
      deck (fst (snd (three_card_reading s g))) = (fst (shuffle (deck s) g))\<lparr>cards := []\<rparr>) \<and>
   (1 \<le> remaining_cards (deck s) \<and> remaining_cards (deck s) < 10 \<longrightarrow>
      fst (celtic_cross_reading s g) = Error_dict ''Not enough cards for Celtic Cross reading'' \<and>
      remaining_cards (deck (fst (snd (celtic_cross_reading s g)))) = 0 \<and>
      deck (fst (snd (celtic_cross_reading s g))) \<noteq> deck s \<and>
      deck (fst (snd (celtic_cross_reading s g))) = (fst (shuffle (deck s) g))\<lparr>cards := []\<rparr>)"
proof -
  have ne: "1 \<le> remaining_cards (deck s) \<Longrightarrow> (fst (shuffle (deck s) g))\<lparr>cards := []\<rparr> \<noteq> deck s"
  proof
    assume a: "1 \<le> remaining_cards (deck s)"
      and e: "(fst (shuffle (deck s) g))\<lparr>cards := []\<rparr> = deck s"
    have "cards ((fst (shuffle (deck s) g))\<lparr>cards := []\<rparr>) = []" by simp
    then have "cards (deck s) = []" by (simp only: e)
    then show False using a by (simp add: remaining_cards_def)
  qed
  show ?thesis
    using ne
    by (auto simp: remaining_cards_def three_card_reading_error celtic_cross_reading_error)
qed

theorem failed_reading_empties_deck_witness:
  "1 \<le> remaining_cards (deck (session_after_drawing 76)) \<and>
   remaining_cards (deck (session_after_drawing 76)) < 3 \<and>
   fst (three_card_reading (session_after_drawing 76) demo_rng)
     = Error_dict ''Not enough cards available'' \<and>
   remaining_cards (deck (fst (snd (three_card_reading (session_after_drawing 76) demo_rng)))) = 0 \<and>
   1 \<le> remaining_cards (deck (session_after_drawing 73)) \<and>
   remaining_cards (deck (session_after_drawing 73)) < 10 \<and>
   fst (celtic_cross_reading (session_after_drawing 73) demo_rng)
     = Error_dict ''Not enough cards for Celtic Cross reading'' \<and>
   remaining_cards (deck (fst (snd (celtic_cross_reading (session_after_drawing 73) demo_rng)))) = 0"
proof -
  have a: "1 \<le> remaining_cards (deck (session_after_drawing 76)) \<and>
           remaining_cards (deck (session_after_drawing 76)) < 3"
    by (simp add: session_after_drawing_remaining)
  have b: "1 \<le> remaining_cards (deck (session_after_drawing 73)) \<and>
           remaining_cards (deck (session_after_drawing 73)) < 10"
    by (simp add: session_after_drawing_remaining)
  show ?thesis
    using a b failed_reading_empties_deck [of "session_after_drawing 76" demo_rng]
          failed_reading_empties_deck [of "session_after_drawing 73" demo_rng]
    by blast
qed

section \<open>Card snapshots\<close>

text \<open>
  Claim C8. \<open>from_dict\<close> fails exactly when the key \<^verbatim>\<open>name\<close> or the key
  \<^verbatim>\<open>description\<close> is absent; the failure is the \<^verbatim>\<open>KeyError\<close> of the first missing
  key. When both are present it succeeds with a card that takes the four attributes from
  the mapping, with \<^verbatim>\<open>None\<close> for an absent \<^verbatim>\<open>image_file\<close> and \<^verbatim>\<open>False\<close> for an absent
  \<^verbatim>\<open>reversed\<close>.
\<close>

theorem from_dict_required_keys:
  "(isl (from_dict data) \<longleftrightarrow> data ''name'' = None \<or> data ''description'' = None) \<and>
   (data ''name'' = None \<longrightarrow> from_dict data = Inl (KeyError ''name'')) \<and>
   (data ''name'' \<noteq> None \<and> data ''description'' = None \<longrightarrow>
      from_dict data = Inl (KeyError ''description'')) \<and>
   (data ''name'' \<noteq> None \<and> data ''description'' \<noteq> None \<longrightarrow>
      from_dict data =
        Inr \<lparr>name = the (data ''name''),
             description = the (data ''description''),
             image_file = (case data ''image_file'' of None \<Rightarrow> PNone | Some v \<Rightarrow> v),
             reversed = (case data ''reversed'' of None \<Rightarrow> PBool False | Some v \<Rightarrow> v)\<rparr>)"
  by (auto simp: from_dict_def TarotCard_init_def split: option.splits)

theorem from_dict_required_keys_witness:
  "demo_snapshot ''name'' \<noteq> None \<and> demo_snapshot ''description'' \<noteq> None \<and>
   from_dict demo_snapshot =
     Inr \<lparr>name = PStr ''The Star'', description = PStr ''Hope and guidance'',
          image_file = PNone, reversed = PBool False\<rparr> \<and>
   from_dict (demo_snapshot(''image_file'' \<mapsto> PStr ''star.jpg'', ''reversed'' \<mapsto> PBool True)) =
     Inr \<lparr>name = PStr ''The Star'', description = PStr ''Hope and guidance'',
          image_file = PStr ''star.jpg'', reversed = PBool True\<rparr> \<and>
   Map.empty ''name'' = (None :: pyval option) \<and>
   from_dict Map.empty = Inl (KeyError ''name'') \<and>
   [''name'' \<mapsto> PStr ''The Star''] ''description'' = None \<and>
   from_dict [''name'' \<mapsto> PStr ''The Star''] = Inl (KeyError ''description'')"
  using from_dict_required_keys [of demo_snapshot]
        from_dict_required_keys
          [of "demo_snapshot(''image_file'' \<mapsto> PStr ''star.jpg'', ''reversed'' \<mapsto> PBool True)"]
        from_dict_required_keys [of Map.empty]
        from_dict_required_keys [of "[''name'' \<mapsto> PStr ''The Star'']"]
  by (simp add: demo_snapshot_def)

section \<open>The interpretation of a three-card reading\<close>

lemma length3_nths: "length xs = 3 \<Longrightarrow> xs = [xs ! 0, xs ! 1, xs ! 2]"
  by (cases xs; cases "tl xs"; cases "tl (tl xs)") auto

lemma position_lines_three:
  "position_lines [''Past'', ''Present'', ''Future''] [c1, c2, c3] =
     [''Past: '' @ get_meaning c1, ''Present: '' @ get_meaning c2, ''Future: '' @ get_meaning c3]"
  by (simp add: position_lines_def enumerate_eq_zip upt_rec)

lemma three_card_reading_result:
  "3 \<le> length (cards (deck s)) \<Longrightarrow>
   fst (three_card_reading s g) =
     Reading_dict ''Three Card (Past, Present, Future)''
       (map to_dict (take 3 (rev (cards (fst (shuffle (deck s) g))))))
       (join [CHR 0x0A] (position_lines [''Past'', ''Present'', ''Future'']
          (take 3 (rev (cards (fst (shuffle (deck s) g)))))))"
  by (simp add: three_card_reading_ok Let_def)

lemma demo_shuffle_cards:
  "cards (fst (shuffle demo_deck demo_rng)) =
     [flip (demo_card ''C''), demo_card ''B'', flip (demo_card ''A'')]"
  by code_simp

lemma demo_meaning:
  "get_meaning (demo_card n) = n @ '': d''"
  "get_meaning (flip (demo_card n)) =
     n @ '' (Reversed): d - Consider the opposite or blocked energy.''"
  by (simp_all add: get_meaning_def flip_def demo_card_def TarotCard_init_def)

text \<open>
  Claim C6. A successful three-card reading is built from the three drawn cards, in draw
  order: its interpretation is the line \<^verbatim>\<open>Past: \<close> followed by the meaning of the first
  card, the line \<^verbatim>\<open>Present: \<close> with the meaning of the second and the line
  \<^verbatim>\<open>Future: \<close> with the meaning of the third, joined by newlines. The meaning of a
  card is \<^verbatim>\<open>{name} (Reversed): {description} - Consider the opposite or blocked energy.\<close>
  when the card is reversed and \<^verbatim>\<open>{name}: {description}\<close> otherwise. Hence the
  interpretation contains \<^verbatim>\<open>Past:\<close>, \<^verbatim>\<open>Present:\<close> and \<^verbatim>\<open>Future:\<close> in this order.
\<close>

theorem three_card_interpretation:
  "fst (three_card_reading s g) = Reading_dict t ds interp \<Longrightarrow>
   (let cs = fst (draw_cards 3 (fst (shuffle (deck s) g))) in
      length cs = 3 \<and>
      t = ''Three Card (Past, Present, Future)'' \<and>
      ds = map to_dict cs \<and>
      interp = ''Past: '' @ get_meaning (cs ! 0) @ [CHR 0x0A]
             @ ''Present: '' @ get_meaning (cs ! 1) @ [CHR 0x0A]
             @ ''Future: '' @ get_meaning (cs ! 2)) \<and>
   get_meaning crd =
     (if truthy (reversed crd)
      then py_str (name crd) @ '' (Reversed): '' @ py_str (description crd)
           @ '' - Consider the opposite or blocked energy.''
      else py_str (name crd) @ '': '' @ py_str (description crd)) \<and>
   (\<exists>a b c d. interp = a @ ''Past:'' @ b @ ''Present:'' @ c @ ''Future:'' @ d)"
proof -
  assume r: "fst (three_card_reading s g) = Reading_dict t ds interp"
  define d1 where "d1 = fst (shuffle (deck s) g)"
  define cs where "cs = fst (draw_cards 3 d1)"
  have ge: "3 \<le> length (cards (deck s))"
  proof (rule ccontr)
    assume "\<not> 3 \<le> length (cards (deck s))"
    then have "fst (three_card_reading s g) = Error_dict ''Not enough cards available''"
      by (simp add: three_card_reading_error)
    then show False using r by simp
  qed
  have cs_take: "cs = take 3 (rev (cards d1))"
    by (simp add: cs_def draw_cards_eq)
  have len: "length cs = 3"
    using ge by (simp add: cs_take d1_def)
  have cs3: "cs = [cs ! 0, cs ! 1, cs ! 2]"
    using len by (rule length3_nths)
  have res: "fst (three_card_reading s g) =
      Reading_dict ''Three Card (Past, Present, Future)'' (map to_dict cs)
        (join [CHR 0x0A] (position_lines [''Past'', ''Present'', ''Future''] cs))"
    unfolding cs_take d1_def using ge by (rule three_card_reading_result)
  have t: "t = ''Three Card (Past, Present, Future)''" and ds: "ds = map to_dict cs"
    and i0: "interp = join [CHR 0x0A] (position_lines [''Past'', ''Present'', ''Future''] cs)"
    using r res by simp_all
  have "position_lines [''Past'', ''Present'', ''Future''] cs =
     [''Past: '' @ get_meaning (cs ! 0), ''Present: '' @ get_meaning (cs ! 1),
      ''Future: '' @ get_meaning (cs ! 2)]"
    using position_lines_three [of "cs ! 0" "cs ! 1" "cs ! 2"] cs3 by simp
  then have i: "interp = ''Past: '' @ get_meaning (cs ! 0) @ [CHR 0x0A]
             @ ''Present: '' @ get_meaning (cs ! 1) @ [CHR 0x0A]
             @ ''Future: '' @ get_meaning (cs ! 2)"
    by (simp add: i0)
  have "interp = [] @ ''Past:'' @ ('' '' @ get_meaning (cs ! 0) @ [CHR 0x0A])
             @ ''Present:'' @ ('' '' @ get_meaning (cs ! 1) @ [CHR 0x0A])
             @ ''Future:'' @ ('' '' @ get_meaning (cs ! 2))"
    by (simp add: i)
  then have sub: "\<exists>a b c d. interp = a @ ''Past:'' @ b @ ''Present:'' @ c @ ''Future:'' @ d"
    by blast
  show ?thesis
    using len t ds i sub by (simp add: Let_def cs_def d1_def get_meaning_def)
qed

theorem three_card_interpretation_witness:
  "fst (three_card_reading demo_session demo_rng) =
     Reading_dict ''Three Card (Past, Present, Future)''
       (map to_dict [flip (demo_card ''A''), demo_card ''B'', flip (demo_card ''C'')])
       (''Past: A (Reversed): d - Consider the opposite or blocked energy.'' @ [CHR 0x0A]
        @ ''Present: B: d'' @ [CHR 0x0A]
        @ ''Future: C (Reversed): d - Consider the opposite or blocked energy.'') \<and>
   (\<exists>a b c d.
      ''Past: A (Reversed): d - Consider the opposite or blocked energy.'' @ [CHR 0x0A]
        @ ''Present: B: d'' @ [CHR 0x0A]
        @ ''Future: C (Reversed): d - Consider the opposite or blocked energy.''
      = a @ ''Past:'' @ b @ ''Present:'' @ c @ ''Future:'' @ d)"
proof -
  have l: "3 \<le> length (cards (deck demo_session))"
    by (simp add: demo_session_def demo_deck_def)
  have cs: "take 3 (rev (cards (fst (shuffle (deck demo_session) demo_rng)))) =
      [flip (demo_card ''A''), demo_card ''B'', flip (demo_card ''C'')]"
    by (simp add: demo_session_def demo_shuffle_cards)
  have h: "fst (three_card_reading demo_session demo_rng) =
     Reading_dict ''Three Card (Past, Present, Future)''
       (map to_dict [flip (demo_card ''A''), demo_card ''B'', flip (demo_card ''C'')])
       (''Past: A (Reversed): d - Consider the opposite or blocked energy.'' @ [CHR 0x0A]
        @ ''Present: B: d'' @ [CHR 0x0A]
        @ ''Future: C (Reversed): d - Consider the opposite or blocked energy.'')"
    unfolding three_card_reading_result [OF l] cs position_lines_three demo_meaning
    by simp
  note t = three_card_interpretation [OF h]
  from h t [THEN conjunct2, THEN conjunct2] show ?thesis
    by (rule conjI)
qed

end
